theory Spec2Isabelle
  imports Complex_Main
begin

section \<open>JavaScript values used by the server\<close>

text \<open>
  A JavaScript \<open>number\<close> that reaches the server is a double. The model keeps the
  three non-finite values apart and carries a finite value as an exact rational, so
  arithmetic here is exact where a double would round (sums and quotients of values that
  are not representable); every concrete input used below is exactly representable.
\<close>

datatype number = NaN | Infinity bool | Finite rat

text \<open>
  A \<open>Date\<close> object holds a time value: an integral number of milliseconds since
  1970-01-01T00:00:00Z, or NaN (an "Invalid Date"), which is \<open>None\<close> here.
\<close>

type_synonym jsdate = "int option"

text \<open>The argument type of \<open>parseDate\<close>: \<open>string | number | undefined\<close>.\<close>

datatype date_input = DUndefined | DNum number | DStr string

text \<open>
  \<open>new Date(n)\<close> for a number: the time value is \<open>TimeClip(n)\<close>, which is NaN for
  a non-finite \<open>n\<close> and beyond 8.64e15 ms, and \<open>n\<close> truncated towards zero otherwise.
\<close>

definition trunc :: "rat \<Rightarrow> int" where
  "trunc q = (if 0 \<le> q then \<lfloor>q\<rfloor> else \<lceil>q\<rceil>)"

fun Date_of_number :: "number \<Rightarrow> jsdate" where
  "Date_of_number (Finite q) =
     (if \<bar>q\<bar> \<le> 8640000000000000 then Some (trunc q) else None)"
| "Date_of_number _ = None"

text \<open>
  The two built-ins that read a string, \<open>Number(s)\<close> and \<open>new Date(s)\<close>, belong to the
  JavaScript engine and not to the server, so the server's functions take them as a
  parameter. \<open>node\<close> below is a reference engine for the strings the server documents.
\<close>

record runtime =
  Number_of_string :: "string \<Rightarrow> number"
  Date_of_string :: "string \<Rightarrow> jsdate"

fun isNaN :: "number \<Rightarrow> bool" where
  "isNaN NaN = True"
| "isNaN _ = False"

text \<open>\<open>Number(x)\<close> and \<open>new Date(x)\<close> on a value of type \<open>string | number\<close>.\<close>

fun Number_of :: "runtime \<Rightarrow> date_input \<Rightarrow> number" where
  "Number_of rt DUndefined = NaN"
| "Number_of rt (DNum n) = n"
| "Number_of rt (DStr s) = Number_of_string rt s"

fun new_Date :: "runtime \<Rightarrow> date_input \<Rightarrow> jsdate" where
  "new_Date rt DUndefined = None"
| "new_Date rt (DNum n) = Date_of_number n"
| "new_Date rt (DStr s) = Date_of_string rt s"

text \<open>Truthiness: \<open>undefined\<close>, \<open>0\<close>, \<open>NaN\<close> and the empty string are falsy.\<close>

fun truthy :: "date_input \<Rightarrow> bool" where
  "truthy DUndefined = False"
| "truthy (DNum NaN) = False"
| "truthy (DNum (Infinity _)) = True"
| "truthy (DNum (Finite q)) = (q \<noteq> 0)"
| "truthy (DStr s) = (s \<noteq> [])"

section \<open>A reference engine for the documented inputs\<close>

text \<open>
  \<open>Number(s)\<close> follows ECMAScript's StringToNumber on ASCII strings: white space is
  trimmed, the empty string is 0, then a radix literal (\<open>0x\<close>, \<open>0o\<close>, \<open>0b\<close>), or an
  optionally signed \<open>Infinity\<close> or decimal literal; anything else is NaN. The value of a
  decimal literal is kept exact (a double rounds it to the nearest representable value).
\<close>

definition is_digit :: "char \<Rightarrow> bool" where
  "is_digit c = (48 \<le> (of_char c :: nat) \<and> (of_char c :: nat) \<le> 57)"

definition digit_val :: "char \<Rightarrow> nat" where
  "digit_val c = of_char c - 48"

definition digits_val :: "string \<Rightarrow> nat" where
  "digits_val s = fold (\<lambda>c n. 10 * n + digit_val c) s 0"

definition all_digits :: "string \<Rightarrow> bool" where
  "all_digits s = (s \<noteq> [] \<and> list_all is_digit s)"

definition is_space :: "char \<Rightarrow> bool" where
  "is_space c = ((of_char c :: nat) \<in> {9, 10, 11, 12, 13, 32})"

definition trim :: "string \<Rightarrow> string" where
  "trim s = rev (dropWhile is_space (rev (dropWhile is_space s)))"

definition radix_digit :: "char \<Rightarrow> nat option" where
  "radix_digit c =
     (let n = (of_char c :: nat)
      in if 48 \<le> n \<and> n \<le> 57 then Some (n - 48)
         else if 97 \<le> n \<and> n \<le> 102 then Some (n - 87)
         else if 65 \<le> n \<and> n \<le> 70 then Some (n - 55)
         else None)"

definition radix_literal :: "nat \<Rightarrow> string \<Rightarrow> number" where
  "radix_literal b ds =
     (if ds \<noteq> [] \<and> list_all (\<lambda>c. case radix_digit c of None \<Rightarrow> False | Some v \<Rightarrow> v < b) ds
      then Finite (of_nat (fold (\<lambda>c n. b * n + (case radix_digit c of None \<Rightarrow> 0 | Some v \<Rightarrow> v)) ds 0))
      else NaN)"

definition mantissa :: "string \<Rightarrow> rat option" where
  "mantissa m =
     (let ip = takeWhile (\<lambda>c. c \<noteq> CHR ''.'') m;
          r = dropWhile (\<lambda>c. c \<noteq> CHR ''.'') m
      in case r of
           [] \<Rightarrow> if all_digits ip then Some (of_nat (digits_val ip)) else None
         | _ # fp \<Rightarrow>
             if list_all is_digit ip \<and> list_all is_digit fp \<and> (ip \<noteq> [] \<or> fp \<noteq> [])
             then Some (of_nat (digits_val ip) + of_nat (digits_val fp) / 10 ^ length fp)
             else None)"

definition exponent_part :: "string \<Rightarrow> int option" where
  "exponent_part e =
     (case e of
        [] \<Rightarrow> None
      | c # ds \<Rightarrow>
          if c = CHR ''-'' then (if all_digits ds then Some (- int (digits_val ds)) else None)
          else if c = CHR ''+'' then (if all_digits ds then Some (int (digits_val ds)) else None)
          else if all_digits (c # ds) then Some (int (digits_val (c # ds))) else None)"

definition unsigned_decimal :: "string \<Rightarrow> rat option" where
  "unsigned_decimal u =
     (let not_e = (\<lambda>c. c \<noteq> CHR ''e'' \<and> c \<noteq> CHR ''E'');
          m = takeWhile not_e u;
          r = dropWhile not_e u
      in case r of
           [] \<Rightarrow> mantissa m
         | _ # e \<Rightarrow>
             (case mantissa m of
                None \<Rightarrow> None
              | Some q \<Rightarrow>
                  (case exponent_part e of
                     None \<Rightarrow> None
                   | Some x \<Rightarrow> Some (if 0 \<le> x then q * 10 ^ nat x else q / 10 ^ nat (- x)))))"

definition signed_literal :: "bool \<Rightarrow> string \<Rightarrow> number" where
  "signed_literal neg u =
     (if u = ''Infinity'' then Infinity (\<not> neg)
      else case unsigned_decimal u of
             None \<Rightarrow> NaN
           | Some q \<Rightarrow> Finite (if neg then - q else q))"

definition StringToNumber :: "string \<Rightarrow> number" where
  "StringToNumber s =
     (let t = trim s
      in case t of
           [] \<Rightarrow> Finite 0
         | c # u \<Rightarrow>
             if c = CHR ''0'' \<and> u \<noteq> [] \<and> hd u \<in> {CHR ''x'', CHR ''X''} then radix_literal 16 (tl u)
             else if c = CHR ''0'' \<and> u \<noteq> [] \<and> hd u \<in> {CHR ''o'', CHR ''O''} then radix_literal 8 (tl u)
             else if c = CHR ''0'' \<and> u \<noteq> [] \<and> hd u \<in> {CHR ''b'', CHR ''B''} then radix_literal 2 (tl u)
             else if c = CHR ''-'' then signed_literal True u
             else if c = CHR ''+'' then signed_literal False u
             else signed_literal False t)"

text \<open>
  \<open>new Date(s)\<close> on the three documented shapes, as Node's engine reads them: a date-only
  form with dashes is UTC midnight; the form with slashes and the form with a time of day
  are local time, and the time value is clipped as for a number. Month 1 to 12, day 1 to 31 (a day past the end of a month runs into the
  next month), hour 0 to 23, minute and second 0 to 59. The local zone is a fixed offset
  \<open>tza\<close> in milliseconds east of UTC. Every other string is an Invalid Date here; Node
  reads more forms than these, and the theorems below use only these three and a string
  without any digit.
\<close>

definition days_from_civil :: "int \<Rightarrow> int \<Rightarrow> int \<Rightarrow> int" where
  "days_from_civil y m d =
     (let y' = (if m \<le> 2 then y - 1 else y);
          era = y' div 400;
          yoe = y' - era * 400;
          mp = (m + 9) mod 12;
          doy = (153 * mp + 2) div 5 + d - 1;
          doe = yoe * 365 + yoe div 4 - yoe div 100 + doy
      in era * 146097 + doe - 719468)"

definition make_date :: "string \<Rightarrow> string \<Rightarrow> string \<Rightarrow> int option" where
  "make_date ys ms ds =
     (if length ys = 4 \<and> length ms = 2 \<and> length ds = 2
         \<and> list_all is_digit (ys @ ms @ ds)
         \<and> 1 \<le> digits_val ms \<and> digits_val ms \<le> 12
         \<and> 1 \<le> digits_val ds \<and> digits_val ds \<le> 31
      then Some (days_from_civil (int (digits_val ys)) (int (digits_val ms)) (int (digits_val ds))
                 * 86400000)
      else None)"

definition make_time :: "string \<Rightarrow> string \<Rightarrow> string \<Rightarrow> int option" where
  "make_time hs ms ss =
     (if length hs = 2 \<and> length ms = 2 \<and> length ss = 2
         \<and> list_all is_digit (hs @ ms @ ss)
         \<and> digits_val hs \<le> 23 \<and> digits_val ms \<le> 59 \<and> digits_val ss \<le> 59
      then Some (int (digits_val hs) * 3600000 + int (digits_val ms) * 60000
                 + int (digits_val ss) * 1000)
      else None)"

definition TimeClip :: "int \<Rightarrow> jsdate" where
  "TimeClip t = (if \<bar>t\<bar> \<le> 8640000000000000 then Some t else None)"

definition Date_parse :: "int \<Rightarrow> string \<Rightarrow> jsdate" where
  "Date_parse tza s =
     (let ys = take 4 s; s1 = take 1 (drop 4 s); ms = take 2 (drop 5 s);
          s2 = take 1 (drop 7 s); ds = take 2 (drop 8 s); r = drop 10 s
      in if s1 = ''-'' \<and> s2 = ''-'' \<and> r = [] then
           (case make_date ys ms ds of None \<Rightarrow> None | Some t \<Rightarrow> TimeClip t)
         else if s1 = ''/'' \<and> s2 = ''/'' \<and> r = [] then
           (case make_date ys ms ds of None \<Rightarrow> None | Some t \<Rightarrow> TimeClip (t - tza))
         else if s1 = ''-'' \<and> s2 = ''-'' \<and> length r = 9 \<and> take 1 r = '' ''
                 \<and> take 1 (drop 3 r) = '':'' \<and> take 1 (drop 6 r) = '':'' then
           (case make_date ys ms ds of
              None \<Rightarrow> None
            | Some t \<Rightarrow>
                (case make_time (take 2 (drop 1 r)) (take 2 (drop 4 r)) (take 2 (drop 7 r)) of
                   None \<Rightarrow> None
                 | Some u \<Rightarrow> TimeClip (t + u - tza)))
         else None)"

definition node :: "int \<Rightarrow> runtime" where
  "node tza = \<lparr>Number_of_string = StringToNumber, Date_of_string = Date_parse tza\<rparr>"

section \<open>utils: parseDate\<close>

text \<open>
  \<^verbatim>\<open>const isValidDate = (date: Date): boolean => !isNaN(date.getTime());\<close>
\<close>

definition isValidDate :: "jsdate \<Rightarrow> bool" where
  "isValidDate d = (d \<noteq> None)"

text \<open>
  \<^verbatim>\<open>
  export const parseDate = (dateInput: string | number | undefined): Date | null => {
      if (!dateInput) return null;
      if (typeof dateInput === 'number' || !isNaN(Number(dateInput))) {
          const date = new Date(Number(dateInput));
          return isValidDate(date) ? date : null;
      }
      if (dateInput.includes('/')) {
          const date = new Date(dateInput);
          return isValidDate(date) ? date : null;
      }
      if (dateInput.includes('-')) {
          const date = new Date(dateInput);
          return isValidDate(date) ? date : null;
      }
      return null;
  };
  \<close>
  The result \<open>Date | null\<close> is \<open>int option\<close>: \<open>Some t\<close> is a valid Date with time
  value \<open>t\<close>, \<open>None\<close> is \<open>null\<close>.
\<close>

fun str_includes :: "date_input \<Rightarrow> char \<Rightarrow> bool" where
  "str_includes (DStr s) c = (c \<in> set s)"
| "str_includes _ c = False"

fun is_number :: "date_input \<Rightarrow> bool" where
  "is_number (DNum _) = True"
| "is_number _ = False"

definition parseDate :: "runtime \<Rightarrow> date_input \<Rightarrow> int option" where
  "parseDate rt dateInput =
     (if \<not> truthy dateInput then None
      else if is_number dateInput \<or> \<not> isNaN (Number_of rt dateInput) then
        (let date = Date_of_number (Number_of rt dateInput)
         in if isValidDate date then date else None)
      else if str_includes dateInput (CHR ''/'') then
        (let date = new_Date rt dateInput
         in if isValidDate date then date else None)
      else if str_includes dateInput (CHR ''-'') then
        (let date = new_Date rt dateInput
         in if isValidDate date then date else None)
      else None)"

section \<open>models/Workout: the workout records\<close>

text \<open>
  \<open>IQuantityMetric\<close> and \<open>IMeasurement\<close> have the same four fields. The type of the
  date is a parameter: a request carries a JSON string or number (\<open>date_input\<close>), a
  normalized record a \<open>Date\<close> object or, where the source leaves the field as it came,
  the raw value.
\<close>

record 'd QuantityMetric =
  qty :: rat
  units :: string
  date :: 'd
  source :: string

datatype date_field = Unconverted date_input | DateObj jsdate

text \<open>\<open>IHeartRate\<close>: the fields \<open>Min\<close>, \<open>Avg\<close>, \<open>Max\<close> carry the prefix \<open>hr_\<close>.\<close>

record 'd HeartRate =
  hr_qty :: rat
  hr_Min :: rat
  hr_Avg :: rat
  hr_Max :: rat
  hr_date :: 'd
  hr_units :: string
  hr_source :: string

text \<open>\<open>ILocation\<close>; the schema requires latitude, longitude and timestamp only.\<close>

record 'd Location =
  latitude :: rat
  longitude :: rat
  timestamp :: 'd
  course :: "rat option"
  courseAccuracy :: "rat option"
  loc_speed :: "rat option"
  speedAccuracy :: "rat option"
  altitude :: "rat option"
  verticalAccuracy :: "rat option"
  horizontalAccuracy :: "rat option"

text \<open>
  \<open>WorkoutData\<close>, and the object \<open>mapWorkoutData\<close> returns, which has the same fields
  with \<open>workoutId\<close> for \<open>id\<close>. The field \<open>workoutId\<close> below is \<open>id\<close> in a request;
  \<open>wstart\<close> and \<open>wend\<close> are \<open>start\<close> and \<open>end\<close>. The three type parameters are the
  types of the top-level dates, of the dates inside quantity metrics and of the dates
  inside heart-rate samples.
\<close>

record ('t, 'm, 'h) Workout =
  workoutId :: string
  name :: string
  wstart :: 't
  wend :: 't
  duration :: rat
  distance :: "'m QuantityMetric option"
  activeEnergyBurned :: "'m QuantityMetric option"
  activeEnergy :: "'m QuantityMetric option"
  heartRateData :: "'h HeartRate list option"
  heartRateRecovery :: "'h HeartRate list option"
  stepCount :: "'m QuantityMetric list option"
  temperature :: "'m QuantityMetric option"
  humidity :: "'m QuantityMetric option"
  intensity :: "'m QuantityMetric option"
  route :: "date_input Location list option"
  totalEnergy :: "'m QuantityMetric option"
  maxHeartRate :: "rat option"
  avgHeartRate :: "rat option"
  stepCadence :: "'m QuantityMetric option"
  totalSwimmingStrokeCount :: "'m QuantityMetric option"
  swimCadence :: "'m QuantityMetric option"
  speed :: "'m QuantityMetric option"
  flightsClimbed :: "'m QuantityMetric option"
  elevation :: "'m QuantityMetric option"

type_synonym WorkoutData = "(date_input, date_input, date_input) Workout"
type_synonym MappedWorkout = "(jsdate, date_field, jsdate) Workout"

record IRoute =
  route_workoutId :: string
  locations :: "jsdate Location list option"

section \<open>models/Workout: mapWorkoutData and mapRoute\<close>

text \<open>
  \<^verbatim>\<open>
  const convertMetricDate = (metric: any) => {
    if (metric && metric.date) {
      return { ...metric, date: new Date(metric.date) };
    }
    return metric;
  };
  \<close>
\<close>

definition convertDate :: "runtime \<Rightarrow> date_input QuantityMetric \<Rightarrow> date_field QuantityMetric" where
  "convertDate rt m =
     \<lparr>qty = qty m, units = units m,
      date = (if truthy (date m) then DateObj (new_Date rt (date m)) else Unconverted (date m)),
      source = source m\<rparr>"

definition convertMetricDate ::
  "runtime \<Rightarrow> date_input QuantityMetric option \<Rightarrow> date_field QuantityMetric option" where
  "convertMetricDate rt metric =
     (case metric of None \<Rightarrow> None | Some m \<Rightarrow> Some (convertDate rt m))"

definition convertHeartRate :: "runtime \<Rightarrow> date_input HeartRate \<Rightarrow> jsdate HeartRate" where
  "convertHeartRate rt hr =
     \<lparr>hr_qty = hr_qty hr, hr_Min = hr_Min hr, hr_Avg = hr_Avg hr, hr_Max = hr_Max hr,
      hr_date = new_Date rt (hr_date hr), hr_units = hr_units hr, hr_source = hr_source hr\<rparr>"

text \<open>
  \<open>!x\<close> on an optional number: true when the field is absent and when it is 0.
\<close>

fun falsy_number :: "rat option \<Rightarrow> bool" where
  "falsy_number None = True"
| "falsy_number (Some q) = (q = 0)"

text \<open>
  \<open>Number(x.toFixed(2))\<close>: the multiple of 0.01 nearest to \<open>x\<close>, the larger one at a
  tie, taken on the absolute value; from 1e21 on \<open>toFixed\<close> prints the number itself.
\<close>

definition toFixed2 :: "rat \<Rightarrow> rat" where
  "toFixed2 x =
     (if 10 ^ 21 \<le> \<bar>x\<bar> then x
      else if x < 0 then - (of_int \<lfloor>- x * 100 + 1 / 2\<rfloor> / 100)
      else of_int \<lfloor>x * 100 + 1 / 2\<rfloor> / 100)"

text \<open>
  \<^verbatim>\<open>
  const hrData = rest.heartRateData as any[];
  if (!(rest as any).maxHeartRate && Array.isArray(hrData) && hrData.length > 0) {
    (rest as any).maxHeartRate = Math.max(...hrData.map((hr) => hr.Max));
  }
  if (!(rest as any).avgHeartRate && Array.isArray(hrData) && hrData.length > 0) {
    const avg = hrData.reduce((sum, hr) => sum + hr.Avg, 0) / hrData.length;
    (rest as any).avgHeartRate = Number(avg.toFixed(2));
  }
  \<close>
  \<open>Array.isArray(hrData) && hrData.length > 0\<close> is the pattern \<open>Some (h # hs)\<close>.
\<close>

definition deriveMaxHeartRate :: "rat option \<Rightarrow> 'h HeartRate list option \<Rightarrow> rat option" where
  "deriveMaxHeartRate supplied hrData =
     (case hrData of
        Some (h # hs) \<Rightarrow>
          if falsy_number supplied then Some (fold max (map hr_Max hs) (hr_Max h)) else supplied
      | _ \<Rightarrow> supplied)"

definition deriveAvgHeartRate :: "rat option \<Rightarrow> 'h HeartRate list option \<Rightarrow> rat option" where
  "deriveAvgHeartRate supplied hrData =
     (case hrData of
        Some (h # hs) \<Rightarrow>
          if falsy_number supplied
          then Some (toFixed2 (fold (\<lambda>hr sum. sum + hr_Avg hr) (h # hs) 0 / of_nat (length (h # hs))))
          else supplied
      | _ \<Rightarrow> supplied)"

definition mapWorkoutData :: "runtime \<Rightarrow> WorkoutData \<Rightarrow> MappedWorkout" where
  "mapWorkoutData rt data =
     (let hrData = map_option (map (convertHeartRate rt)) (heartRateData data)
      in \<lparr>workoutId = workoutId data,
          name = name data,
          wstart = new_Date rt (wstart data),
          wend = new_Date rt (wend data),
          duration = duration data,
          distance = convertMetricDate rt (distance data),
          activeEnergyBurned = convertMetricDate rt (activeEnergyBurned data),
          activeEnergy = convertMetricDate rt (activeEnergy data),
          heartRateData = hrData,
          heartRateRecovery = map_option (map (convertHeartRate rt)) (heartRateRecovery data),
          stepCount = map_option (map (convertDate rt)) (stepCount data),
          temperature = convertMetricDate rt (temperature data),
          humidity = convertMetricDate rt (humidity data),
          intensity = convertMetricDate rt (intensity data),
          route = route data,
          totalEnergy = convertMetricDate rt (totalEnergy data),
          maxHeartRate = deriveMaxHeartRate (maxHeartRate data) hrData,
          avgHeartRate = deriveAvgHeartRate (avgHeartRate data) hrData,
          stepCadence = convertMetricDate rt (stepCadence data),
          totalSwimmingStrokeCount = convertMetricDate rt (totalSwimmingStrokeCount data),
          swimCadence = convertMetricDate rt (swimCadence data),
          speed = convertMetricDate rt (speed data),
          flightsClimbed = convertMetricDate rt (flightsClimbed data),
          elevation = convertMetricDate rt (elevation data)\<rparr>)"

text \<open>
  \<^verbatim>\<open>
  export function mapRoute(data: WorkoutData) {
    return {
      workoutId: data.id,
      locations: data.route?.map((loc) => ({ ...loc, timestamp: new Date(loc.timestamp) })),
    };
  }
  \<close>
\<close>

definition convertLocation :: "runtime \<Rightarrow> date_input Location \<Rightarrow> jsdate Location" where
  "convertLocation rt loc =
     \<lparr>latitude = latitude loc, longitude = longitude loc,
      timestamp = new_Date rt (timestamp loc),
      course = course loc, courseAccuracy = courseAccuracy loc, loc_speed = loc_speed loc,
      speedAccuracy = speedAccuracy loc, altitude = altitude loc,
      verticalAccuracy = verticalAccuracy loc, horizontalAccuracy = horizontalAccuracy loc\<rparr>"

definition mapRoute :: "runtime \<Rightarrow> WorkoutData \<Rightarrow> IRoute" where
  "mapRoute rt data =
     \<lparr>route_workoutId = workoutId data,
      locations = map_option (map (convertLocation rt)) (route data)\<rparr>"

text \<open>
  The validator of \<open>routeSchema.locations\<close>:
  \<^verbatim>\<open>validator: function (array: ILocation[]) { return array.length > 0; }\<close>
\<close>

definition locations_validator :: "'a list \<Rightarrow> bool" where
  "locations_validator array = (length array > 0)"

section \<open>The document store\<close>

text \<open>
  The store is MongoDB behind Mongoose: a collection is a sequence of documents, a
  document maps field names to values. Fields the driver adds on its own (\<open>_id\<close>,
  \<open>__v\<close>, timestamps) are left out.
\<close>

datatype val = VStr string | VNum rat | VDate jsdate | VObj "(string \<times> val) list"

type_synonym document = "string \<rightharpoonup> val"
type_synonym collection = "document list"
type_synonym store = "string \<Rightarrow> collection"
type_synonym query = "(string \<times> val) list"

text \<open>A filter of equalities matches a document that carries each value.\<close>

definition matches :: "query \<Rightarrow> document \<Rightarrow> bool" where
  "matches f d = list_all (\<lambda>(k, v). d k = Some v) f"

text \<open>
  \<open>{ updateOne: { filter, update: { $set: u }, upsert: true } }\<close>: the first document
  that matches the filter gets every field of \<open>u\<close> set and keeps its other fields; when
  no document matches, one is inserted, made of the filter's equalities and \<open>u\<close>.
\<close>

fun updateOne :: "query \<Rightarrow> document \<Rightarrow> collection \<Rightarrow> collection" where
  "updateOne f u [] = [map_of f ++ u]"
| "updateOne f u (d # ds) = (if matches f d then (d ++ u) # ds else d # updateOne f u ds)"

text \<open>
  \<open>Model.bulkWrite(ops)\<close>. The driver applies the operations in order, or raises: \<open>fault\<close>
  gives, for a collection the driver cannot write (store unreachable, validation
  failure), the message of the error it raises, and the collection is then left as it
  was. A write of no operations changes nothing.
\<close>

type_synonym fault = "string \<Rightarrow> string option"

definition bulkWrite ::
  "fault \<Rightarrow> string \<Rightarrow> (query \<times> document) list \<Rightarrow> store \<Rightarrow> string option \<times> store" where
  "bulkWrite fault coll ops st =
     (case fault coll of
        Some e \<Rightarrow> (Some e, st)
      | None \<Rightarrow> (None, st(coll := fold (\<lambda>(f, u). updateOne f u) ops (st coll))))"

text \<open>The driver that never fails, and the store without documents.\<close>

definition no_fault :: fault where
  "no_fault = (\<lambda>coll. None)"

definition empty_store :: store where
  "empty_store = (\<lambda>coll. [])"

section \<open>The request and the response\<close>

text \<open>
  \<open>IngestData\<close> is \<open>{ data: { metrics, workouts } }\<close>; a metric entry is
  \<open>{ name, units, data }\<close>. The shape of a raw record is read by \<open>mapMetric\<close> alone, so
  it is a type parameter. \<open>IngestResponse\<close> is \<open>{ metrics?, workouts? }\<close>, each
  \<open>{ success, message?, error? }\<close>.
\<close>

record 'r MetricData =
  metric_name :: string
  metric_units :: string
  metric_data :: "'r list"

record 'r Payload =
  metrics :: "'r MetricData list option"
  workouts :: "WorkoutData list option"

record 'r IngestData =
  data :: "'r Payload option"

record Outcome =
  success :: bool
  message :: "string option"
  error :: "string option"

record IngestResponse =
  resp_metrics :: "Outcome option"
  resp_workouts :: "Outcome option"

text \<open>
  A normalized metric (the union \<open>Metric\<close> of models/Metric): \<open>saveMetrics\<close> reads its
  \<open>source\<close> and \<open>date\<close> and writes the whole object with \<open>$set\<close>.
\<close>

record Metric =
  metric_source :: string
  metric_date :: jsdate
  metric_fields :: "string \<rightharpoonup> val"

definition metric_doc :: "Metric \<Rightarrow> document" where
  "metric_doc metric =
     (metric_fields metric)(''source'' \<mapsto> VStr (metric_source metric),
                            ''date'' \<mapsto> VDate (metric_date metric))"

text \<open>
  The metric-kind registry (models/MetricName and models/Metric are not part of the
  sources at hand): the three enum values, the collections of the three fixed models, and
  the collection of the model \<open>createMetricModel\<close> makes for any other name.
\<close>

record registry =
  BLOOD_PRESSURE :: string
  HEART_RATE :: string
  SLEEP_ANALYSIS :: string
  BloodPressureModel :: string
  HeartRateModel :: string
  SleepModel :: string
  createMetricModel :: "string \<Rightarrow> string"

section \<open>controllers/metrics: saveMetrics\<close>

text \<open>
  \<^verbatim>\<open>
  const metricsByType = metricsData.reduce((acc, metric) => {
      const mappedMetrics = mapMetric(metric);
      const key = metric.name;
      acc[key] = acc[key] || [];
      acc[key].push(...mappedMetrics);
      return acc;
    }, {});
  \<close>
  The object \<open>acc\<close> is an association list in the order the keys were first added, which
  is the order \<open>Object.entries\<close> lists them in (for names that are not integer indices).
\<close>

fun push_group :: "string \<Rightarrow> Metric list \<Rightarrow> (string \<times> Metric list) list \<Rightarrow> (string \<times> Metric list) list" where
  "push_group key ms [] = [(key, ms)]"
| "push_group key ms ((k, xs) # acc) =
     (if k = key then (k, xs @ ms) # acc else (k, xs) # push_group key ms acc)"

definition metricsByType ::
  "('r MetricData \<Rightarrow> Metric list) \<Rightarrow> 'r MetricData list \<Rightarrow> (string \<times> Metric list) list" where
  "metricsByType mapMetric metricsData =
     fold (\<lambda>metric acc. push_group (metric_name metric) (mapMetric metric) acc) metricsData []"

text \<open>
  The four branches of the \<open>switch\<close> differ in the model only; each writes
  \<^verbatim>\<open>
  metrics.map((metric) => ({
    updateOne: {
      filter: { source: metric.source, date: metric.date },
      update: { $set: metric },
      upsert: true,
    },
  }))
  \<close>
\<close>

definition model_for :: "registry \<Rightarrow> string \<Rightarrow> string" where
  "model_for R key =
     (if key = BLOOD_PRESSURE R then BloodPressureModel R
      else if key = HEART_RATE R then HeartRateModel R
      else if key = SLEEP_ANALYSIS R then SleepModel R
      else createMetricModel R key)"

definition upsert_op :: "Metric \<Rightarrow> query \<times> document" where
  "upsert_op metric =
     ([(''source'', VStr (metric_source metric)), (''date'', VDate (metric_date metric))],
      metric_doc metric)"

definition saveOperations ::
  "registry \<Rightarrow> (string \<times> Metric list) list \<Rightarrow> (string \<times> (query \<times> document) list) list" where
  "saveOperations R byType = map (\<lambda>(key, ms). (model_for R key, map upsert_op ms)) byType"

text \<open>
  \<open>await Promise.all(saveOperations)\<close>: every bulk write has been started by the
  \<open>map\<close> before the \<open>await\<close>, so each of them runs whatever the others do; the
  \<open>await\<close> raises the error of a write that failed. The writes are taken in the order
  of the list, and the error is that of the first one that failed.
\<close>

fun Promise_all ::
  "fault \<Rightarrow> (string \<times> (query \<times> document) list) list \<Rightarrow> store \<Rightarrow> string option \<times> store" where
  "Promise_all fault [] st = (None, st)"
| "Promise_all fault ((coll, ops) # rest) st =
     (let (e, st1) = bulkWrite fault coll ops st;
          (es, st2) = Promise_all fault rest st1
      in (case e of Some x \<Rightarrow> Some x | None \<Rightarrow> es, st2))"

fun string_of_nat :: "nat \<Rightarrow> string" where
  "string_of_nat n =
     (if n < 10 then [''0123456789'' ! n]
      else string_of_nat (n div 10) @ [''0123456789'' ! (n mod 10)])"

definition metrics_only :: "Outcome \<Rightarrow> IngestResponse" where
  "metrics_only out = \<lparr>resp_metrics = Some out, resp_workouts = None\<rparr>"

text \<open>
  \<^verbatim>\<open>
  export const saveMetrics = async (ingestData: IngestData): Promise<IngestResponse> => {
    try {
      const response: IngestResponse = {};
      const metricsData = ingestData.data.metrics;
      if (!metricsData || metricsData.length === 0) {
        response.metrics = { success: true, error: 'No metrics data provided' };
        return response;
      }
      const metricsByType = ...;
      const saveOperations = Object.entries(metricsByType).map(...);
      await Promise.all(saveOperations);
      response.metrics = {
        success: true,
        message: `${metricsData.length} metrics saved successfully`,
      };
      return response;
    } catch (error) {
      const errorResponse: IngestResponse = {};
      errorResponse.metrics = {
        success: false,
        error: error instanceof Error ? error.message : 'Error saving metrics',
      };
      return errorResponse;
    }
  };
  \<close>
  Reading \<open>ingestData.data.metrics\<close> when \<open>data\<close> is missing raises a TypeError inside
  the \<open>try\<close>; \<open>undefined_data_message\<close> is the engine's text for it.
\<close>

definition undefined_data_message :: string where
  "undefined_data_message =
     ''Cannot read properties of undefined (reading '' @ [CHR 0x27] @ ''metrics'' @ [CHR 0x27] @ '')''"

definition saveMetrics ::
  "('r MetricData \<Rightarrow> Metric list) \<Rightarrow> registry \<Rightarrow> fault \<Rightarrow> 'r IngestData \<Rightarrow> store
     \<Rightarrow> IngestResponse \<times> store" where
  "saveMetrics mapMetric R fault ingestData st =
     (case data ingestData of
        None \<Rightarrow>
          (metrics_only \<lparr>success = False, message = None, error = Some undefined_data_message\<rparr>, st)
      | Some d \<Rightarrow>
          (case metrics d of
             None \<Rightarrow>
               (metrics_only \<lparr>success = True, message = None,
                              error = Some ''No metrics data provided''\<rparr>, st)
           | Some metricsData \<Rightarrow>
               if length metricsData = 0 then
                 (metrics_only \<lparr>success = True, message = None,
                                error = Some ''No metrics data provided''\<rparr>, st)
               else
                 (let (failed, st') =
                        Promise_all fault (saveOperations R (metricsByType mapMetric metricsData)) st
                  in case failed of
                       None \<Rightarrow>
                         (metrics_only
                            \<lparr>success = True,
                             message = Some (string_of_nat (length metricsData)
                                             @ '' metrics saved successfully''),
                             error = None\<rparr>, st')
                     | Some e \<Rightarrow>
                         (metrics_only \<lparr>success = False, message = None, error = Some e\<rparr>, st'))))"

section \<open>controllers/ingester: ingestData\<close>

text \<open>
  \<^verbatim>\<open>
  export const ingestData = async (req: Request, res: Response) => {
    let response: IngestResponse = {};
    try {
      const data = req.body as IngestData;
      if (!data) { throw new Error('No data provided'); }
      const [metricsResponse, workoutsResponse] = await Promise.all([
        saveMetrics(data),
        saveWorkouts(data),
      ]);
      response = { ...metricsResponse, ...workoutsResponse };
      const hasErrors = Object.values(response).some((r: any) => !r.success);
      const allFailed = Object.values(response).every((r: any) => !r.success);
      if (allFailed) { res.status(500).json(response); return; }
      res.status(hasErrors ? 207 : 200).json(response);
    } catch (error: any) {
      res.status(500).json({
        error: 'Failed to process request',
        message: error instanceof Error ? error.message : 'An error occurred',
      });
    }
  };
  \<close>
  The request body is \<open>None\<close> when it is missing. \<open>saveWorkouts\<close>
  (controllers/workouts) is a parameter: it takes the request and the store and returns
  its response, or \<open>Inl\<close> the message of an error it raises, and the store it leaves.
  The two saves run one after the other here, metrics first.
\<close>

datatype body = Grouped IngestResponse | TopLevelError string string

definition merge_responses :: "IngestResponse \<Rightarrow> IngestResponse \<Rightarrow> IngestResponse" where
  "merge_responses a b =
     \<lparr>resp_metrics = (case resp_metrics b of Some x \<Rightarrow> Some x | None \<Rightarrow> resp_metrics a),
      resp_workouts = (case resp_workouts b of Some x \<Rightarrow> Some x | None \<Rightarrow> resp_workouts a)\<rparr>"

definition Object_values :: "IngestResponse \<Rightarrow> Outcome list" where
  "Object_values r =
     (case resp_metrics r of Some x \<Rightarrow> [x] | None \<Rightarrow> [])
     @ (case resp_workouts r of Some x \<Rightarrow> [x] | None \<Rightarrow> [])"

definition ingestData ::
  "('r MetricData \<Rightarrow> Metric list) \<Rightarrow> registry \<Rightarrow> fault
     \<Rightarrow> ('r IngestData \<Rightarrow> store \<Rightarrow> (string + IngestResponse) \<times> store)
     \<Rightarrow> 'r IngestData option \<Rightarrow> store \<Rightarrow> (nat \<times> body) \<times> store" where
  "ingestData mapMetric R fault saveWorkouts req_body st =
     (case req_body of
        None \<Rightarrow> ((500, TopLevelError ''Failed to process request'' ''No data provided''), st)
      | Some d \<Rightarrow>
          (let (metricsResponse, st1) = saveMetrics mapMetric R fault d st;
               (workoutsResult, st2) = saveWorkouts d st1
           in case workoutsResult of
                Inl msg \<Rightarrow> ((500, TopLevelError ''Failed to process request'' msg), st2)
              | Inr workoutsResponse \<Rightarrow>
                  (let response = merge_responses metricsResponse workoutsResponse;
                       hasErrors = list_ex (\<lambda>r. \<not> success r) (Object_values response);
                       allFailed = list_all (\<lambda>r. \<not> success r) (Object_values response)
                   in if allFailed then ((500, Grouped response), st2)
                      else ((if hasErrors then 207 else 200, Grouped response), st2))))"

section \<open>Parts of the pipeline that are not among the sources\<close>

text \<open>
  Modelled from the spec: the record normalizer \<open>mapMetric\<close> (models/Metric), in its
  generic shape. "Unmatched kinds fall back to the generic shape (value + units + source
  + timestamp, plus free-form metadata pass-through)"; "invalid or unparseable timestamps
  cause that single record to be skipped (logged, not fatal)". The timestamp is resolved
  by \<open>parseDate\<close>. A raw record is the \<open>BaseMetric\<close> the export reader posts.
\<close>

record BaseMetric =
  base_qty :: rat
  base_units :: string
  base_date :: date_input
  base_source :: string
  metadata :: "(string \<times> string) list option"

definition normalizeRecord :: "runtime \<Rightarrow> BaseMetric \<Rightarrow> Metric option" where
  "normalizeRecord rt r =
     (case parseDate rt (base_date r) of
        None \<Rightarrow> None
      | Some t \<Rightarrow>
          Some \<lparr>metric_source = base_source r,
                metric_date = Some t,
                metric_fields =
                  (case metadata r of
                     None \<Rightarrow> [''qty'' \<mapsto> VNum (base_qty r), ''units'' \<mapsto> VStr (base_units r)]
                   | Some md \<Rightarrow>
                       [''qty'' \<mapsto> VNum (base_qty r), ''units'' \<mapsto> VStr (base_units r),
                        ''metadata'' \<mapsto> VObj (map (\<lambda>(k, v). (k, VStr v)) md)])\<rparr>)"

definition mapMetric_generic :: "runtime \<Rightarrow> BaseMetric MetricData \<Rightarrow> Metric list" where
  "mapMetric_generic rt metric = List.map_filter (normalizeRecord rt) (metric_data metric)"

text \<open>
  Modelled from the spec: the route extraction and the route write of the workout writer
  (controllers/workouts). "Route extraction: if the raw workout carries a location
  sequence, produce a NormalizedRoute with the same workout identifier and a location
  array with resolved timestamps; omit the route entirely if the raw sequence is empty";
  the bulk upsert of the group has "filter = workoutId". The route itself is made by
  \<open>mapRoute\<close>; the route collection holds \<open>IRoute\<close> documents, and \<open>$set\<close> of a
  route sets both of their fields.
\<close>

definition extractRoute :: "runtime \<Rightarrow> WorkoutData \<Rightarrow> IRoute option" where
  "extractRoute rt w = (case route w of Some (l # ls) \<Rightarrow> Some (mapRoute rt w) | _ \<Rightarrow> None)"

fun upsertRoute :: "IRoute \<Rightarrow> IRoute list \<Rightarrow> IRoute list" where
  "upsertRoute r [] = [r]"
| "upsertRoute r (x # xs) =
     (if route_workoutId x = route_workoutId r then r # xs else x # upsertRoute r xs)"

definition writeRoutes :: "runtime \<Rightarrow> WorkoutData list \<Rightarrow> IRoute list \<Rightarrow> IRoute list" where
  "writeRoutes rt ws coll = fold upsertRoute (List.map_filter (extractRoute rt) ws) coll"

text \<open>A stored route is valid when its locations are present and pass the validator.\<close>

definition route_valid :: "IRoute \<Rightarrow> bool" where
  "route_valid r = (case locations r of None \<Rightarrow> False | Some ls \<Rightarrow> locations_validator ls)"

section \<open>Notions used to state and prove the properties of the writes\<close>

text \<open>
  The identity of a metric document is the pair of its \<open>source\<close> and \<open>date\<close>
  fields; \<open>upsertMetric\<close> is the one operation \<open>saveMetrics\<close> issues for a metric;
  \<open>merged ms d\<close> is \<open>d\<close> after \<open>$set\<close> of each metric of \<open>ms\<close> in turn.
\<close>

definition doc_key :: "document \<Rightarrow> val option \<times> val option" where
  "doc_key d = (d ''source'', d ''date'')"

definition upsertMetric :: "Metric \<Rightarrow> collection \<Rightarrow> collection" where
  "upsertMetric m c = updateOne (fst (upsert_op m)) (snd (upsert_op m)) c"

definition merged :: "Metric list \<Rightarrow> document \<Rightarrow> document" where
  "merged ms d = fold (\<lambda>m d. d ++ metric_doc m) ms d"

text \<open>
  The metrics a request writes to a collection, in the order of the bulk operations:
  those of every group whose model is that collection.
\<close>

definition written :: "registry \<Rightarrow> (string \<times> Metric list) list \<Rightarrow> string \<Rightarrow> Metric list" where
  "written R byType coll = concat (map snd [g \<leftarrow> byType. model_for R (fst g) = coll])"

definition metrics_written ::
  "('r MetricData \<Rightarrow> Metric list) \<Rightarrow> registry \<Rightarrow> 'r IngestData \<Rightarrow> string \<Rightarrow> Metric list" where
  "metrics_written mapMetric R ingest coll =
     (case data ingest of
        None \<Rightarrow> []
      | Some d \<Rightarrow>
          (case metrics d of
             None \<Rightarrow> []
           | Some metricsData \<Rightarrow> written R (metricsByType mapMetric metricsData) coll))"

definition field_of :: "string \<Rightarrow> collection \<Rightarrow> val option list" where
  "field_of k c = map (\<lambda>d. d k) c"

section \<open>Sample inputs\<close>

definition sample_registry :: registry where
  "sample_registry =
     \<lparr>BLOOD_PRESSURE = ''blood_pressure'', HEART_RATE = ''heart_rate'',
      SLEEP_ANALYSIS = ''sleep_analysis'', BloodPressureModel = ''blood_pressure'',
      HeartRateModel = ''heart_rate'', SleepModel = ''sleep_analysis'',
      createMetricModel = (\<lambda>key. key)\<rparr>"

definition workouts_ok :: "'r IngestData \<Rightarrow> store \<Rightarrow> (string + IngestResponse) \<times> store" where
  "workouts_ok d st =
     (Inr \<lparr>resp_metrics = None,
           resp_workouts = Some \<lparr>success = True,
                                 message = Some ''1 workouts saved successfully'',
                                 error = None\<rparr>\<rparr>, st)"


definition sample_record :: "string \<Rightarrow> date_input \<Rightarrow> rat \<Rightarrow> BaseMetric" where
  "sample_record src d q =
     \<lparr>base_qty = q, base_units = ''count'', base_date = d, base_source = src, metadata = None\<rparr>"

definition sample_metric :: "string \<Rightarrow> 'r list \<Rightarrow> 'r MetricData" where
  "sample_metric n rs = \<lparr>metric_name = n, metric_units = ''count'', metric_data = rs\<rparr>"

definition request :: "'r MetricData list option \<Rightarrow> 'r IngestData" where
  "request ms = \<lparr>data = Some \<lparr>metrics = ms, workouts = None\<rparr>\<rparr>"

definition sample_hr :: "rat \<Rightarrow> rat \<Rightarrow> rat \<Rightarrow> date_input HeartRate" where
  "sample_hr lo av hi =
     \<lparr>hr_qty = av, hr_Min = lo, hr_Avg = av, hr_Max = hi, hr_date = DStr ''2024-01-15 08:30:00'',
      hr_units = ''bpm'', hr_source = ''watch''\<rparr>"

definition sample_location :: "date_input \<Rightarrow> date_input Location" where
  "sample_location t =
     \<lparr>latitude = 52, longitude = 13, timestamp = t, course = None, courseAccuracy = None,
      loc_speed = None, speedAccuracy = None, altitude = None, verticalAccuracy = None,
      horizontalAccuracy = None\<rparr>"

definition sample_workout :: WorkoutData where
  "sample_workout =
     \<lparr>workoutId = ''w1'', name = ''Running'',
      wstart = DStr ''2024-01-15 08:00:00'', wend = DStr ''2024-01-15 09:00:00'',
      duration = 3600,
      distance = None,
      activeEnergyBurned =
        Some \<lparr>qty = 500, units = ''kcal'', date = DStr ''2024-01-15 09:00:00'', source = ''watch''\<rparr>,
      activeEnergy = None, heartRateData = None, heartRateRecovery = None, stepCount = None,
      temperature = None, humidity = None, intensity = None, route = None, totalEnergy = None,
      maxHeartRate = None, avgHeartRate = None, stepCadence = None,
      totalSwimmingStrokeCount = None, swimCadence = None, speed = None, flightsClimbed = None,
      elevation = None\<rparr>"

definition old_metric :: Metric where
  "old_metric =
     \<lparr>metric_source = ''watch'', metric_date = Some 1705300000000,
      metric_fields = [''qty'' \<mapsto> VNum 10, ''note'' \<mapsto> VStr ''manual'']\<rparr>"

definition new_metric :: Metric where
  "new_metric =
     \<lparr>metric_source = ''watch'', metric_date = Some 1705300000000,
      metric_fields = [''qty'' \<mapsto> VNum 12]\<rparr>"


section \<open>parseDate: falsy inputs\<close>

text \<open>
  C10. \<open>parseDate\<close> returns null for every falsy input, whatever the engine: the number
  0, the empty string and \<open>undefined\<close> (and NaN). So the epoch timestamp 0 is not
  resolved, and a record stamped with the number 0 is dropped by the record normalizer.
\<close>

theorem parseDate_falsy:
  "parseDate rt (DNum (Finite 0)) = None
   \<and> parseDate rt (DStr []) = None
   \<and> parseDate rt DUndefined = None
   \<and> (\<not> truthy x \<longrightarrow> parseDate rt x = None)
   \<and> (base_date r = DNum (Finite 0) \<longrightarrow>
        mapMetric_generic rt (m\<lparr>metric_data := pre @ r # post\<rparr>)
        = mapMetric_generic rt (m\<lparr>metric_data := pre @ post\<rparr>))"
  by (simp add: parseDate_def mapMetric_generic_def List.map_filter_def normalizeRecord_def)

theorem parseDate_falsy_witness:
  "parseDate (node 0) (DNum (Finite 0)) = None
   \<and> parseDate (node 0) (DStr []) = None
   \<and> parseDate (node 0) DUndefined = None
   \<and> \<not> truthy (DNum NaN) \<and> parseDate (node 0) (DNum NaN) = None
   \<and> mapMetric_generic (node 0)
        (sample_metric ''step_count''
           [sample_record ''watch'' (DNum (Finite 1705300000000)) 10,
            sample_record ''watch'' (DNum (Finite 0)) 20])
      = mapMetric_generic (node 0)
          (sample_metric ''step_count'' [sample_record ''watch'' (DNum (Finite 1705300000000)) 10])"
  using parseDate_falsy [where rt = "node 0" and x = "DNum NaN"
      and r = "sample_record ''watch'' (DNum (Finite 0)) 20"
      and m = "sample_metric ''step_count'' []"
      and pre = "[sample_record ''watch'' (DNum (Finite 1705300000000)) 10]" and post = "[]"]
  by (simp add: sample_record_def sample_metric_def)

section \<open>ingestData: the status of the response\<close>







section \<open>saveMetrics: an empty metrics group\<close>

lemma saveMetrics_empty:
  assumes "data ingest = Some d" and "metrics d = None \<or> metrics d = Some []"
  shows "saveMetrics mapMetric R fault ingest st
         = (metrics_only \<lparr>success = True, message = None,
                          error = Some ''No metrics data provided''\<rparr>, st)"
  using assms by (auto simp: saveMetrics_def)

text \<open>
  C7, as the code has it. When the metrics array is absent or of length zero, the metrics
  outcome has \<open>success = true\<close> and its text is \<open>No metrics data provided\<close>; the store
  is not touched; and the workouts group is still processed: \<open>saveWorkouts\<close> runs on the
  same request and the same store, its outcome is in the response, and with a successful
  workouts outcome the status is 200.
\<close>

theorem saveMetrics_empty_group:
  assumes "data ingest = Some d" and "metrics d = None \<or> metrics d = Some []"
  shows "(\<exists>out. fst (saveMetrics mapMetric R fault ingest st) = metrics_only out
            \<and> success out
            \<and> (message out = Some ''No metrics data provided''
                 \<or> error out = Some ''No metrics data provided'')
            \<and> (\<forall>w st2. saveWorkouts ingest st
                          = (Inr \<lparr>resp_metrics = None, resp_workouts = Some w\<rparr>, st2)
                        \<and> success w
                  \<longrightarrow> ingestData mapMetric R fault saveWorkouts (Some ingest) st
                      = ((200, Grouped \<lparr>resp_metrics = Some out, resp_workouts = Some w\<rparr>), st2)))
       \<and> snd (saveMetrics mapMetric R fault ingest st) = st"
proof -
  let ?out = "\<lparr>success = True, message = None, error = Some ''No metrics data provided''\<rparr>"
  have e: "saveMetrics mapMetric R fault ingest st = (metrics_only ?out, st)"
    using assms by (rule saveMetrics_empty)
  have "ingestData mapMetric R fault saveWorkouts (Some ingest) st
        = ((200, Grouped \<lparr>resp_metrics = Some ?out, resp_workouts = Some w\<rparr>), st2)"
    if "saveWorkouts ingest st = (Inr \<lparr>resp_metrics = None, resp_workouts = Some w\<rparr>, st2)"
      and "success w" for w st2
    using that e
    by (simp add: ingestData_def Let_def merge_responses_def Object_values_def metrics_only_def)
  then show ?thesis
    using e by (intro conjI exI [of _ ?out]) auto
qed

theorem saveMetrics_empty_group_witness:
  "ingestData (mapMetric_generic (node 0)) sample_registry no_fault workouts_ok
     (Some (request (Some []))) empty_store
   = ((200, Grouped \<lparr>resp_metrics = Some \<lparr>success = True, message = None,
                                            error = Some ''No metrics data provided''\<rparr>,
                      resp_workouts = Some \<lparr>success = True,
                                             message = Some ''1 workouts saved successfully'',
                                             error = None\<rparr>\<rparr>), empty_store)
   \<and> snd (saveMetrics (mapMetric_generic (node 0)) sample_registry no_fault
            (request (Some [])) empty_store) = empty_store"
proof -
  have d: "data (request (Some []) :: BaseMetric IngestData)
           = Some \<lparr>metrics = Some [], workouts = None\<rparr>"
    by (simp add: request_def)
  have m: "metrics \<lparr>metrics = Some ([] :: BaseMetric MetricData list), workouts = None\<rparr> = None
           \<or> metrics \<lparr>metrics = Some ([] :: BaseMetric MetricData list), workouts = None\<rparr> = Some []"
    by simp
  have e: "fst (saveMetrics (mapMetric_generic (node 0)) sample_registry no_fault
                  (request (Some [])) empty_store)
           = metrics_only \<lparr>success = True, message = None,
                           error = Some ''No metrics data provided''\<rparr>"
    using d by (simp add: saveMetrics_def)
  show ?thesis
    using saveMetrics_empty_group [OF d m, of "mapMetric_generic (node 0)" sample_registry
        no_fault empty_store workouts_ok] e
    by (auto simp: workouts_ok_def metrics_only_def)
qed

text \<open>
  The outcome of an empty metrics group carries the text \<open>no records\<close> neither as its
  message nor as its error: it has no message, and its error is
  \<open>No metrics data provided\<close>.
\<close>

theorem saveMetrics_empty_group_counterexample:
  "map_option message
     (resp_metrics (fst (saveMetrics (mapMetric_generic (node 0)) sample_registry no_fault
                           (request (Some [])) empty_store)))
   = Some None
   \<and> map_option error
       (resp_metrics (fst (saveMetrics (mapMetric_generic (node 0)) sample_registry no_fault
                             (request (Some [])) empty_store)))
     \<noteq> Some (Some ''no records'')"
  by (simp add: saveMetrics_def request_def metrics_only_def)

section \<open>parseDate: the documented formats\<close>






lemma Date_parse_dashes: "Date_parse tza ''2024-01-15'' = Some 1705276800000"
  by (simp add: Date_parse_def make_date_def is_digit_def digits_val_def digit_val_def
      days_from_civil_def TimeClip_def)




lemma parseDate_string:
  "s \<noteq> [] \<Longrightarrow> Number_of_string rt s = NaN \<Longrightarrow> CHR ''/'' \<in> set s \<or> CHR ''-'' \<in> set s
   \<Longrightarrow> parseDate rt (DStr s) = Date_of_string rt s"
  by (auto simp: parseDate_def isValidDate_def Let_def)


lemma is_digit_chars:
  assumes "is_digit c"
  shows "\<not> is_space c" "c \<noteq> CHR ''.''" "c \<noteq> CHR ''e''" "c \<noteq> CHR ''E''" "c \<noteq> CHR ''-''"
    "c \<noteq> CHR ''+''" "c \<noteq> CHR ''x''" "c \<noteq> CHR ''X''" "c \<noteq> CHR ''o''" "c \<noteq> CHR ''O''"
    "c \<noteq> CHR ''b''" "c \<noteq> CHR ''B''" "c \<noteq> CHR ''I''" "c \<noteq> CHR ''/''" "c \<noteq> CHR '' ''" "c \<noteq> CHR '':''"
  using assms by (auto simp: is_digit_def is_space_def)

lemma digit_val_le: "is_digit c \<Longrightarrow> digit_val c \<le> 9"
  unfolding is_digit_def digit_val_def by arith

lemma days_from_civil_bound:
  assumes "0 \<le> y" "y \<le> 9999" "1 \<le> m" "m \<le> 12" "1 \<le> d" "d \<le> 31"
  shows "\<bar>days_from_civil y m d\<bar> \<le> 4000000"
proof -
  define y' where "y' = (if m \<le> 2 then y - 1 else y)"
  define era where "era = y' div 400"
  define yoe where "yoe = y' - era * 400"
  define mp where "mp = (m + 9) mod 12"
  define doy where "doy = (153 * mp + 2) div 5 + d - 1"
  have y': "- 1 \<le> y'" "y' \<le> 9999" using assms by (auto simp: y'_def)
  have era: "- 1 \<le> era" "era \<le> 24" using y' unfolding era_def by linarith+
  have yoe: "0 \<le> yoe" "yoe < 400"
    unfolding yoe_def era_def by (simp_all add: minus_div_mult_eq_mod)
  have mp: "0 \<le> mp" "mp \<le> 11" unfolding mp_def by simp_all
  have doy: "0 \<le> doy" "doy \<le> 367" using mp assms unfolding doy_def by linarith+
  have q: "0 \<le> yoe div 4" "yoe div 4 \<le> 99" "0 \<le> yoe div 100" "yoe div 100 \<le> 3"
    using yoe by linarith+
  have "days_from_civil y m d = era * 146097 + (yoe * 365 + yoe div 4 - yoe div 100 + doy) - 719468"
    by (simp add: days_from_civil_def Let_def y'_def era_def yoe_def mp_def doy_def)
  then show ?thesis
    using era yoe doy q by linarith
qed

lemma trim_digits_ends:
  assumes "s \<noteq> []" "\<not> is_space (hd s)" "\<not> is_space (last s)"
  shows "trim s = s"
proof -
  have "dropWhile is_space s = s"
    using assms by (simp add: dropWhile_eq_self_iff)
  moreover have "hd (rev s) = last s"
    using assms(1) by (simp add: hd_rev)
  then have "dropWhile is_space (rev s) = rev s"
    using assms by (simp add: dropWhile_eq_self_iff)
  ultimately show ?thesis
    by (simp add: trim_def)
qed

lemma StringToNumber_digits:
  assumes "all_digits s"
  shows "StringToNumber s = Finite (of_nat (digits_val s))"
proof -
  obtain c u where s: "s = c # u"
    using assms by (cases s) (auto simp: all_digits_def)
  have digs: "\<forall>x \<in> set s. is_digit x"
    using assms by (simp add: all_digits_def list_all_iff)
  have c: "is_digit c"
    using digs s by simp
  have u: "is_digit (hd u)" if "u \<noteq> []"
    using digs s that by (cases u) simp_all
  have l: "is_digit (last s)"
    using digs s last_in_set [of s] by blast
  have t: "trim s = s"
  proof (rule trim_digits_ends)
    show "s \<noteq> []" using s by simp
    show "\<not> is_space (hd s)" using s c is_digit_chars(1) by simp
    show "\<not> is_space (last s)" using l is_digit_chars(1) by blast
  qed
  have "\<forall>x \<in> set s. x \<noteq> CHR ''e'' \<and> x \<noteq> CHR ''E''"
    using digs is_digit_chars(3,4) by blast
  then have no_e: "takeWhile (\<lambda>c. c \<noteq> CHR ''e'' \<and> c \<noteq> CHR ''E'') s = s"
    "dropWhile (\<lambda>c. c \<noteq> CHR ''e'' \<and> c \<noteq> CHR ''E'') s = []"
    by (simp_all add: takeWhile_eq_all_conv)
  have "\<forall>x \<in> set s. x \<noteq> CHR ''.''"
    using digs is_digit_chars(2) by blast
  then have no_dot: "takeWhile (\<lambda>c. c \<noteq> CHR ''.'') s = s" "dropWhile (\<lambda>c. c \<noteq> CHR ''.'') s = []"
    by (simp_all add: takeWhile_eq_all_conv)
  have m: "mantissa s = Some (of_nat (digits_val s))"
    using assms by (simp add: mantissa_def no_dot)
  have ud: "unsigned_decimal s = Some (of_nat (digits_val s))"
    by (simp add: unsigned_decimal_def no_e m)
  have "c \<noteq> CHR ''I''"
    using c by (rule is_digit_chars(13))
  then have inf: "s \<noteq> ''Infinity''"
    using s by simp
  have sl: "signed_literal False s = Finite (of_nat (digits_val s))"
    by (simp add: signed_literal_def ud inf)
  have radix: "\<not> (u \<noteq> [] \<and> hd u \<in> {CHR ''x'', CHR ''X''})"
    "\<not> (u \<noteq> [] \<and> hd u \<in> {CHR ''o'', CHR ''O''})"
    "\<not> (u \<noteq> [] \<and> hd u \<in> {CHR ''b'', CHR ''B''})"
    using u is_digit_chars(7-12) [of "hd u"] by blast+
  have sign: "c \<noteq> CHR ''-''" "c \<noteq> CHR ''+''"
    using c is_digit_chars(5,6) by blast+
  have "StringToNumber s = signed_literal False s"
    unfolding StringToNumber_def t Let_def
    using radix sign by (auto simp: s)
  then show ?thesis
    by (simp add: sl)
qed

lemma parseDate_digits:
  assumes "all_digits s" "digits_val s \<le> 8640000000000000"
  shows "parseDate (node tza) (DStr s) = Some (int (digits_val s))"
proof -
  have "s \<noteq> []" using assms by (auto simp: all_digits_def)
  moreover have "(of_nat (digits_val s) :: rat) \<le> 8640000000000000"
    using assms(2) by (metis of_nat_le_iff of_nat_numeral)
  ultimately show ?thesis
    by (simp add: parseDate_def node_def StringToNumber_digits [OF assms(1)] isValidDate_def trunc_def)
qed

lemma StringToNumber_not_numeric:
  assumes s: "s = c # u"
    and c: "is_digit c"
    and u: "u \<noteq> [] \<longrightarrow> is_digit (hd u)"
    and l: "is_digit (last s)"
    and chars: "\<forall>x \<in> set s. is_digit x \<or> x = CHR ''-'' \<or> x = CHR ''/'' \<or> x = CHR '' '' \<or> x = CHR '':''"
    and other: "\<exists>x \<in> set s. \<not> is_digit x"
  shows "StringToNumber s = NaN"
proof -
  have t: "trim s = s"
  proof (rule trim_digits_ends)
    show "s \<noteq> []" using s by simp
    show "\<not> is_space (hd s)" using s c is_digit_chars(1) by simp
    show "\<not> is_space (last s)" using l is_digit_chars(1) by blast
  qed
  have "\<forall>x \<in> set s. x \<noteq> CHR ''e'' \<and> x \<noteq> CHR ''E''"
    using chars is_digit_chars(3,4) by fastforce
  then have no_e: "takeWhile (\<lambda>c. c \<noteq> CHR ''e'' \<and> c \<noteq> CHR ''E'') s = s"
    "dropWhile (\<lambda>c. c \<noteq> CHR ''e'' \<and> c \<noteq> CHR ''E'') s = []"
    by (simp_all add: takeWhile_eq_all_conv)
  have "\<forall>x \<in> set s. x \<noteq> CHR ''.''"
    using chars is_digit_chars(2) by fastforce
  then have no_dot: "takeWhile (\<lambda>c. c \<noteq> CHR ''.'') s = s" "dropWhile (\<lambda>c. c \<noteq> CHR ''.'') s = []"
    by (simp_all add: takeWhile_eq_all_conv)
  have "\<not> all_digits s"
    using other by (simp add: all_digits_def list_all_iff)
  then have m: "mantissa s = None"
    by (simp add: mantissa_def no_dot)
  have ud: "unsigned_decimal s = None"
    by (simp add: unsigned_decimal_def no_e m)
  have "c \<noteq> CHR ''I''"
    using c by (rule is_digit_chars(13))
  then have inf: "s \<noteq> ''Infinity''"
    using s by simp
  have sl: "signed_literal False s = NaN"
    by (simp add: signed_literal_def ud inf)
  have radix: "\<not> (u \<noteq> [] \<and> hd u \<in> {CHR ''x'', CHR ''X''})"
    "\<not> (u \<noteq> [] \<and> hd u \<in> {CHR ''o'', CHR ''O''})"
    "\<not> (u \<noteq> [] \<and> hd u \<in> {CHR ''b'', CHR ''B''})"
    using u is_digit_chars(7-12) [of "hd u"] by blast+
  have sign: "c \<noteq> CHR ''-''" "c \<noteq> CHR ''+''"
    using c is_digit_chars(5,6) by blast+
  have "StringToNumber s = signed_literal False s"
    unfolding StringToNumber_def t Let_def
    using radix sign by (auto simp: s)
  then show ?thesis
    by (simp add: sl)
qed

lemma digits_val_bounds:
  assumes "is_digit a" "is_digit b" "is_digit c" "is_digit d"
  shows "digits_val [a, b, c, d] \<le> 9999" "digits_val [a, b] \<le> 99"
  using assms [THEN digit_val_le] by (simp_all add: digits_val_def)

lemma make_date_valid:
  assumes "list_all is_digit [y1, y2, y3, y4, m1, m2, d1, d2]"
    and "1 \<le> digits_val [m1, m2]" "digits_val [m1, m2] \<le> 12"
    and "1 \<le> digits_val [d1, d2]" "digits_val [d1, d2] \<le> 31"
  shows "\<exists>t. make_date [y1, y2, y3, y4] [m1, m2] [d1, d2] = Some t \<and> \<bar>t\<bar> \<le> 345600000000000
           \<and> t = days_from_civil (int (digits_val [y1, y2, y3, y4])) (int (digits_val [m1, m2]))
                   (int (digits_val [d1, d2])) * 86400000"
proof -
  have "digits_val [y1, y2, y3, y4] \<le> 9999"
    using assms(1) by (intro digits_val_bounds) simp_all
  then have "\<bar>days_from_civil (int (digits_val [y1, y2, y3, y4])) (int (digits_val [m1, m2]))
                (int (digits_val [d1, d2]))\<bar> \<le> 4000000"
    using assms(2-5) by (intro days_from_civil_bound) simp_all
  then show ?thesis
    using assms by (simp add: make_date_def abs_mult)
qed


lemma parseDate_date_only:
  assumes "list_all is_digit [y1, y2, y3, y4, m1, m2, d1, d2]"
    and "1 \<le> digits_val [m1, m2]" "digits_val [m1, m2] \<le> 12"
    and "1 \<le> digits_val [d1, d2]" "digits_val [d1, d2] \<le> 31"
  shows "parseDate (node tza) (DStr [y1, y2, y3, y4, CHR ''-'', m1, m2, CHR ''-'', d1, d2])
         = Some (days_from_civil (int (digits_val [y1, y2, y3, y4])) (int (digits_val [m1, m2]))
                   (int (digits_val [d1, d2])) * 86400000)"
proof -
  let ?s = "[y1, y2, y3, y4, CHR ''-'', m1, m2, CHR ''-'', d1, d2]"
  have nan: "StringToNumber ?s = NaN"
    using assms(1) by (intro StringToNumber_not_numeric [of _ y1 "tl ?s"]) (auto simp: is_digit_def)
  obtain t where t: "make_date [y1, y2, y3, y4] [m1, m2] [d1, d2] = Some t" "\<bar>t\<bar> \<le> 345600000000000"
    "t = days_from_civil (int (digits_val [y1, y2, y3, y4])) (int (digits_val [m1, m2]))
                   (int (digits_val [d1, d2])) * 86400000"
    using make_date_valid [OF assms] by blast
  have "Date_parse tza ?s = Some t"
    using t(1,2) by (simp add: Date_parse_def TimeClip_def)
  then show ?thesis
    using parseDate_string [of ?s "node tza"] nan t(3) by (simp add: node_def)
qed



lemma parseDate_epoch_strings:
  "parseDate (node tza) (DStr ''0'') = Some 0"
  "parseDate (node tza) (DStr ''1970-01-01'') = Some 0"
proof -
  have "all_digits ''0''" "digits_val ''0'' = 0"
    by (simp_all add: all_digits_def is_digit_def digits_val_def digit_val_def)
  then show "parseDate (node tza) (DStr ''0'') = Some 0"
    using parseDate_digits [of "''0''" tza] by simp
  show "parseDate (node tza) (DStr ''1970-01-01'') = Some 0"
    using parseDate_date_only [of "CHR ''1''" "CHR ''9''" "CHR ''7''" "CHR ''0''" "CHR ''0''"
        "CHR ''1''" "CHR ''0''" "CHR ''1''" tza]
    by (simp add: is_digit_def digits_val_def digit_val_def days_from_civil_def)
qed



section \<open>mapWorkoutData: derived heart rates\<close>

lemma fold_add_sum_list: "fold (\<lambda>hr sum. sum + f hr) xs (a :: rat) = a + sum_list (map f xs)"
  by (induction xs arbitrary: a) (simp_all add: add.assoc)

lemma deriveMaxHeartRate_absent:
  "deriveMaxHeartRate None (Some (h # hs)) = Some (Max (set (map hr_Max (h # hs))))"
proof -
  have "fold max (map hr_Max hs) (hr_Max h) = Max (set (hr_Max h # map hr_Max hs))"
    by (rule Max.set_eq_fold [symmetric])
  then show ?thesis
    by (simp add: deriveMaxHeartRate_def)
qed

lemma deriveAvgHeartRate_absent:
  "deriveAvgHeartRate None (Some (h # hs))
   = Some (toFixed2 (sum_list (map hr_Avg (h # hs)) / of_nat (length (h # hs))))"
  by (simp add: deriveAvgHeartRate_def fold_add_sum_list add.commute)

lemma derive_supplied_nonzero:
  "q \<noteq> 0 \<Longrightarrow> deriveMaxHeartRate (Some q) hrData = Some q \<and> deriveAvgHeartRate (Some q) hrData = Some q"
  by (simp add: deriveMaxHeartRate_def deriveAvgHeartRate_def split: option.splits list.splits)

lemma derive_no_series:
  "hrData = None \<or> hrData = Some []
   \<Longrightarrow> deriveMaxHeartRate x hrData = x \<and> deriveAvgHeartRate x hrData = x"
  by (auto simp: deriveMaxHeartRate_def deriveAvgHeartRate_def)

lemma toFixed2_hundredths:
  assumes "\<bar>x\<bar> < 10 ^ 21"
  shows "\<exists>n :: int. toFixed2 x = of_int n / 100" and "\<bar>toFixed2 x - x\<bar> \<le> 1 / 200"
proof -
  show "\<exists>n :: int. toFixed2 x = of_int n / 100"
  proof (cases "x < 0")
    case True
    then have "toFixed2 x = of_int (- \<lfloor>- x * 100 + 1 / 2\<rfloor>) / 100"
      using assms by (simp add: toFixed2_def)
    then show ?thesis by blast
  next
    case False
    then have "toFixed2 x = of_int \<lfloor>x * 100 + 1 / 2\<rfloor> / 100"
      using assms by (simp add: toFixed2_def)
    then show ?thesis by blast
  qed
  show "\<bar>toFixed2 x - x\<bar> \<le> 1 / 200"
  proof (cases "x < 0")
    case True
    define y where "y = - x * 100 + 1 / 2"
    have "of_int \<lfloor>y\<rfloor> \<le> y" "y < of_int \<lfloor>y\<rfloor> + 1"
      by linarith+
    moreover have "toFixed2 x = - (of_int \<lfloor>y\<rfloor> / 100)"
      using True assms by (simp add: toFixed2_def y_def)
    ultimately show ?thesis
      by (simp add: y_def abs_if field_simps) 
  next
    case False
    define y where "y = x * 100 + 1 / 2"
    have "of_int \<lfloor>y\<rfloor> \<le> y" "y < of_int \<lfloor>y\<rfloor> + 1"
      by linarith+
    moreover have "toFixed2 x = of_int \<lfloor>y\<rfloor> / 100"
      using False assms by (simp add: toFixed2_def y_def)
    ultimately show ?thesis
      by (simp add: y_def abs_if field_simps)
  qed
qed

lemma mapWorkoutData_heart_rates:
  "maxHeartRate (mapWorkoutData rt w)
   = deriveMaxHeartRate (maxHeartRate w) (map_option (map (convertHeartRate rt)) (heartRateData w))"
  "avgHeartRate (mapWorkoutData rt w)
   = deriveAvgHeartRate (avgHeartRate w) (map_option (map (convertHeartRate rt)) (heartRateData w))"
  by (simp_all add: mapWorkoutData_def Let_def)

lemma toFixed2_72: "toFixed2 72 = 72"
proof -
  have "\<lfloor>(72 :: rat) * 100 + 1 / 2\<rfloor> = 7200"
    by (simp add: floor_eq_iff)
  then show ?thesis
    by (simp add: toFixed2_def)
qed

lemma mapWorkoutData_example:
  "maxHeartRate (mapWorkoutData rt
      (sample_workout\<lparr>heartRateData := Some [sample_hr 60 70 90, sample_hr 62 74 95]\<rparr>)) = Some 95"
  "avgHeartRate (mapWorkoutData rt
      (sample_workout\<lparr>heartRateData := Some [sample_hr 60 70 90, sample_hr 62 74 95]\<rparr>)) = Some 72"
  by (simp_all add: mapWorkoutData_heart_rates sample_workout_def sample_hr_def
      convertHeartRate_def deriveMaxHeartRate_def deriveAvgHeartRate_def toFixed2_72)

text \<open>
  C4, at the input where the code departs from it. A workout that supplies
  \<open>maxHeartRate: 0\<close> and \<open>avgHeartRate: 0\<close> together with the series
  \<open>[{Min:60,Avg:70,Max:90},{Min:62,Avg:74,Max:95}]\<close> comes out with 95 and 72: the test
  \<open>!x\<close> takes the supplied 0 for a missing field, and the supplied values are
  overwritten. (The lemmas above cover the rest: an absent field is derived, a supplied
  value other than 0 is kept.)
\<close>

theorem mapWorkoutData_supplied_zero:
  "maxHeartRate (mapWorkoutData (node 0)
      (sample_workout\<lparr>maxHeartRate := Some 0, avgHeartRate := Some 0,
                       heartRateData := Some [sample_hr 60 70 90, sample_hr 62 74 95]\<rparr>)) = Some 95
   \<and> avgHeartRate (mapWorkoutData (node 0)
      (sample_workout\<lparr>maxHeartRate := Some 0, avgHeartRate := Some 0,
                       heartRateData := Some [sample_hr 60 70 90, sample_hr 62 74 95]\<rparr>)) = Some 72"
  by (simp add: mapWorkoutData_heart_rates sample_workout_def sample_hr_def
      convertHeartRate_def deriveMaxHeartRate_def deriveAvgHeartRate_def toFixed2_72)

section \<open>mapRoute and the stored routes\<close>

lemma mapRoute_empty:
  "route w = Some [] \<Longrightarrow> mapRoute rt w = \<lparr>route_workoutId = workoutId w, locations = Some []\<rparr>"
  by (simp add: mapRoute_def)

lemma extractRoute_valid: "extractRoute rt w = Some r \<Longrightarrow> route_valid r"
  by (auto simp: extractRoute_def mapRoute_def route_valid_def locations_validator_def
      split: option.splits list.splits)

lemma upsertRoute_valid:
  "route_valid r \<Longrightarrow> \<forall>x \<in> set coll. route_valid x \<Longrightarrow> \<forall>x \<in> set (upsertRoute r coll). route_valid x"
  by (induction coll) auto

lemma fold_upsertRoute_valid:
  "\<forall>r \<in> set rs. route_valid r \<Longrightarrow> \<forall>x \<in> set coll. route_valid x
   \<Longrightarrow> \<forall>x \<in> set (fold upsertRoute rs coll). route_valid x"
proof (induction rs arbitrary: coll)
  case Nil
  then show ?case by simp
next
  case (Cons r rs)
  have "\<forall>x \<in> set (upsertRoute r coll). route_valid x"
    using Cons.prems by (intro upsertRoute_valid) auto
  then show ?case
    using Cons by simp
qed

text \<open>
  C9. A raw workout with a non-empty location sequence yields a route with the workout's
  identifier and one location per raw location, each with its timestamp turned into a
  Date; a raw workout whose sequence is empty yields no route; and writing the routes of
  any batch into a collection of valid routes leaves every stored route valid, that is,
  with a locations array that passes the schema's validator (length > 0).
\<close>

theorem route_extraction:
  "(route w = Some (l # ls) \<longrightarrow>
      extractRoute rt w
      = Some \<lparr>route_workoutId = workoutId w, locations = Some (map (convertLocation rt) (l # ls))\<rparr>
      \<and> map timestamp (map (convertLocation rt) (l # ls))
        = map (\<lambda>loc. new_Date rt (timestamp loc)) (l # ls))
   \<and> (route w = Some [] \<longrightarrow> extractRoute rt w = None)
   \<and> ((\<forall>r \<in> set coll. route_valid r) \<longrightarrow> (\<forall>r \<in> set (writeRoutes rt ws coll). route_valid r))
   \<and> (route_valid r \<longrightarrow> (\<exists>ls. locations r = Some ls \<and> ls \<noteq> []))"
proof -
  have "\<forall>r \<in> set (List.map_filter (extractRoute rt) ws). route_valid r"
    by (auto simp: List.map_filter_def dest: extractRoute_valid split: option.splits)
  then have "(\<forall>r \<in> set coll. route_valid r) \<longrightarrow> (\<forall>r \<in> set (writeRoutes rt ws coll). route_valid r)"
    unfolding writeRoutes_def using fold_upsertRoute_valid by blast
  moreover have "route_valid r \<longrightarrow> (\<exists>ls. locations r = Some ls \<and> ls \<noteq> [])"
    by (simp add: route_valid_def locations_validator_def split: option.splits)
  ultimately show ?thesis
    by (simp add: extractRoute_def mapRoute_def convertLocation_def)
qed

theorem route_extraction_witness:
  "extractRoute (node 0) (sample_workout\<lparr>route := Some [sample_location (DStr ''2024-01-15'')]\<rparr>)
   = Some \<lparr>route_workoutId = ''w1'',
           locations = Some [convertLocation (node 0) (sample_location (DStr ''2024-01-15''))]\<rparr>
   \<and> timestamp (convertLocation (node 0) (sample_location (DStr ''2024-01-15''))) = Some 1705276800000
   \<and> extractRoute (node 0) (sample_workout\<lparr>route := Some []\<rparr>) = None
   \<and> writeRoutes (node 0)
        [sample_workout\<lparr>route := Some [sample_location (DStr ''2024-01-15'')]\<rparr>,
         sample_workout\<lparr>workoutId := ''w2'', route := Some []\<rparr>] []
      = [\<lparr>route_workoutId = ''w1'',
           locations = Some [convertLocation (node 0) (sample_location (DStr ''2024-01-15''))]\<rparr>]
   \<and> route_valid \<lparr>route_workoutId = ''w1'',
           locations = Some [convertLocation (node 0) (sample_location (DStr ''2024-01-15''))]\<rparr>"
proof -
  let ?w1 = "sample_workout\<lparr>route := Some [sample_location (DStr ''2024-01-15'')]\<rparr>"
  let ?w2 = "sample_workout\<lparr>workoutId := ''w2'', route := Some []\<rparr>"
  let ?r = "\<lparr>route_workoutId = ''w1'',
             locations = Some [convertLocation (node 0) (sample_location (DStr ''2024-01-15''))]\<rparr>"
  have t: "timestamp (convertLocation (node 0) (sample_location (DStr ''2024-01-15'')))
           = Some 1705276800000"
    by (simp add: convertLocation_def sample_location_def node_def Date_parse_dashes)
  have a: "extractRoute (node 0) ?w1 = Some ?r"
    using route_extraction [where w = ?w1 and rt = "node 0" and l = "sample_location (DStr ''2024-01-15'')"
        and ls = "[]" and coll = "[]"]
    by (simp add: sample_workout_def)
  have b: "extractRoute (node 0) ?w2 = None" "extractRoute (node 0) (sample_workout\<lparr>route := Some []\<rparr>) = None"
    using route_extraction [where w = ?w2 and rt = "node 0" and coll = "[]"]
      route_extraction [where w = "sample_workout\<lparr>route := Some []\<rparr>" and rt = "node 0" and coll = "[]"]
    by simp_all
  have c: "writeRoutes (node 0) [?w1, ?w2] [] = [?r]"
    by (simp add: writeRoutes_def List.map_filter_def a b)
  have "\<forall>r \<in> set (writeRoutes (node 0) [?w1, ?w2] []). route_valid r"
    using route_extraction [where coll = "[]" and rt = "node 0" and ws = "[?w1, ?w2]"]
    by simp
  then have d: "route_valid ?r"
    by (simp add: c)
  show ?thesis
    using a b c d t by simp
qed

section \<open>Upserts of metrics into one collection\<close>

lemma matches_upsert_op: "matches (fst (upsert_op m)) d \<longleftrightarrow> doc_key d = doc_key (metric_doc m)"
  by (auto simp: matches_def upsert_op_def doc_key_def metric_doc_def)

lemma doc_key_add [simp]: "doc_key (d ++ metric_doc m) = doc_key (metric_doc m)"
  by (simp add: doc_key_def metric_doc_def)

lemma inserted_doc: "map_of (fst (upsert_op m)) ++ snd (upsert_op m) = metric_doc m"
  by (rule ext) (simp add: upsert_op_def metric_doc_def map_add_def split: option.splits)

lemma upsertMetric_simps:
  "upsertMetric m [] = [metric_doc m]"
  "upsertMetric m (d # ds) =
     (if doc_key d = doc_key (metric_doc m) then (d ++ metric_doc m) # ds else d # upsertMetric m ds)"
  by (simp_all add: upsertMetric_def inserted_doc matches_upsert_op) (simp add: upsert_op_def)

lemma fold_upsert_Cons:
  "fold upsertMetric ms (d # ds)
   = merged [m \<leftarrow> ms. doc_key (metric_doc m) = doc_key d] d
     # fold upsertMetric [m \<leftarrow> ms. doc_key (metric_doc m) \<noteq> doc_key d] ds"
proof (induction ms arbitrary: d ds)
  case Nil
  then show ?case by (simp add: merged_def)
next
  case (Cons m ms)
  show ?case
  proof (cases "doc_key d = doc_key (metric_doc m)")
    case True
    then show ?thesis
      using Cons.IH [of "d ++ metric_doc m" ds] by (simp add: upsertMetric_simps merged_def)
  next
    case False
    then show ?thesis
      using Cons.IH [of d "upsertMetric m ds"] by (auto simp add: upsertMetric_simps merged_def)
  qed
qed

lemma merged_add: "merged ms d = d ++ merged ms Map.empty"
proof (induction ms arbitrary: d)
  case Nil
  then show ?case by (simp add: merged_def)
next
  case (Cons m ms)
  have "merged (m # ms) d = merged ms (d ++ metric_doc m)"
    by (simp add: merged_def)
  also have "\<dots> = (d ++ metric_doc m) ++ merged ms Map.empty"
    by (rule Cons.IH)
  also have "\<dots> = d ++ (metric_doc m ++ merged ms Map.empty)"
    by simp
  also have "metric_doc m ++ merged ms Map.empty = merged ms (metric_doc m)"
    by (rule Cons.IH [symmetric])
  also have "merged ms (metric_doc m) = merged (m # ms) Map.empty"
    by (simp add: merged_def)
  finally show ?case .
qed

lemma map_add_twice: "(d ++ x) ++ x = d ++ (x :: 'a \<rightharpoonup> 'b)"
  by (rule ext) (simp add: map_add_def split: option.splits)

lemma map_add_absorb: "((u ++ x) ++ u) ++ x = u ++ (x :: 'a \<rightharpoonup> 'b)"
  by (rule ext) (simp add: map_add_def split: option.splits)

lemma merged_idem: "merged ms (merged ms d) = merged ms d"
  by (metis merged_add map_add_twice)

lemma doc_key_merged:
  "\<forall>m \<in> set ms. doc_key (metric_doc m) = doc_key d \<Longrightarrow> doc_key (merged ms d) = doc_key d"
proof (induction ms arbitrary: d)
  case Nil
  then show ?case by (simp add: merged_def)
next
  case (Cons m ms)
  have "doc_key (merged ms (d ++ metric_doc m)) = doc_key (d ++ metric_doc m)"
    using Cons.prems by (intro Cons.IH) simp
  then show ?case
    using Cons.prems by (simp add: merged_def)
qed

lemma fold_upsert_Nil_idem:
  "fold upsertMetric ms (fold upsertMetric ms []) = fold upsertMetric ms []"
proof (induction "length ms" arbitrary: ms rule: less_induct)
  case less
  show ?case
  proof (cases ms)
    case Nil
    then show ?thesis by simp
  next
    case (Cons m rest)
    let ?u = "metric_doc m"
    let ?A = "[x \<leftarrow> rest. doc_key (metric_doc x) = doc_key ?u]"
    let ?B = "[x \<leftarrow> rest. doc_key (metric_doc x) \<noteq> doc_key ?u]"
    let ?D = "merged ?A ?u"
    let ?R = "fold upsertMetric ?B []"
    have first: "fold upsertMetric ms [] = ?D # ?R"
      using fold_upsert_Cons [of rest ?u "[]"] by (simp add: Cons upsertMetric_simps)
    have key: "doc_key ?D = doc_key ?u"
      by (rule doc_key_merged) simp
    have "length ?B < length ms"
      by (simp add: Cons le_imp_less_Suc)
    then have R: "fold upsertMetric ?B ?R = ?R"
      by (rule less)
    have "merged ?A (?D ++ ?u) = ?D"
      by (metis merged_add map_add_absorb)
    then have "fold upsertMetric ms (?D # ?R) = ?D # ?R"
      using fold_upsert_Cons [of rest "?D ++ ?u" ?R] key R
      by (simp add: Cons upsertMetric_simps)
    then show ?thesis
      by (simp add: first)
  qed
qed

lemma fold_upsert_idem:
  "fold upsertMetric ms (fold upsertMetric ms c) = fold upsertMetric ms c"
proof (induction c arbitrary: ms)
  case Nil
  then show ?case by (rule fold_upsert_Nil_idem)
next
  case (Cons d ds)
  let ?A = "[m \<leftarrow> ms. doc_key (metric_doc m) = doc_key d]"
  let ?B = "[m \<leftarrow> ms. doc_key (metric_doc m) \<noteq> doc_key d]"
  have key: "doc_key (merged ?A d) = doc_key d"
    by (rule doc_key_merged) simp
  show ?case
    using fold_upsert_Cons [of ms d ds] fold_upsert_Cons [of ms "merged ?A d" "fold upsertMetric ?B ds"]
    by (simp add: key merged_idem Cons.IH)
qed

section \<open>The writes of saveMetrics\<close>

lemma fold_ops_upsert:
  "fold (\<lambda>(f, u). updateOne f u) (map upsert_op ms) c = fold upsertMetric ms c"
  by (induction ms arbitrary: c) (simp_all add: upsertMetric_def case_prod_beta)

lemma bulkWrite_store:
  "snd (bulkWrite fault c (map upsert_op ms) st) coll
   = (if c = coll \<and> fault coll = None then fold upsertMetric ms (st coll) else st coll)"
  by (auto simp: bulkWrite_def fold_ops_upsert split: option.splits)

lemma Promise_all_store:
  "snd (Promise_all fault (saveOperations R byType) st) coll
   = (if fault coll = None then fold upsertMetric (written R byType coll) (st coll) else st coll)"
proof (induction byType arbitrary: st)
  case Nil
  then show ?case by (simp add: saveOperations_def written_def)
next
  case (Cons g byType)
  obtain key ms where g: "g = (key, ms)" by (cases g)
  let ?st1 = "snd (bulkWrite fault (model_for R key) (map upsert_op ms) st)"
  have "snd (Promise_all fault (saveOperations R (g # byType)) st) coll
        = snd (Promise_all fault (saveOperations R byType) ?st1) coll"
    by (simp add: saveOperations_def g split: prod.splits)
  also have "\<dots> = (if fault coll = None then fold upsertMetric (written R byType coll) (?st1 coll)
                    else ?st1 coll)"
    by (rule Cons.IH)
  finally show ?case
    by (simp add: bulkWrite_store written_def g)
qed

lemma Promise_all_Cons:
  "fst (Promise_all fault ((c, ops) # rest) st)
   = (case fault c of
        Some e \<Rightarrow> Some e
      | None \<Rightarrow> fst (Promise_all fault rest (snd (bulkWrite fault c ops st))))"
  "snd (Promise_all fault ((c, ops) # rest) st)
   = snd (Promise_all fault rest (snd (bulkWrite fault c ops st)))"
  by (simp_all add: bulkWrite_def case_prod_beta split: option.splits)

lemma Promise_all_error:
  "fst (Promise_all fault bulks st)
   = (case List.map_filter fault (map fst bulks) of [] \<Rightarrow> None | e # es \<Rightarrow> Some e)"
proof (induction bulks arbitrary: st)
  case Nil
  then show ?case by (simp add: List.map_filter_simps)
next
  case (Cons b bulks)
  obtain c ops where b: "b = (c, ops)" by (cases b)
  show ?case
    unfolding b Promise_all_Cons
    by (simp add: Cons.IH List.map_filter_simps split: option.splits)
qed









lemma saveMetrics_store:
  "snd (saveMetrics mapMetric R fault ingest st) coll
   = (if fault coll = None then fold upsertMetric (metrics_written mapMetric R ingest coll) (st coll)
      else st coll)"
proof (cases "data ingest")
  case None
  then show ?thesis by (simp add: saveMetrics_def metrics_written_def)
next
  case (Some d)
  show ?thesis
  proof (cases "metrics d")
    case None
    then show ?thesis using Some by (simp add: saveMetrics_def metrics_written_def)
  next
    case (Some md)
    show ?thesis
    proof (cases "md = []")
      case True
      then show ?thesis
        using \<open>data ingest = Some d\<close> Some
        by (simp add: saveMetrics_def metrics_written_def metricsByType_def written_def)
    next
      case False
      then have "snd (saveMetrics mapMetric R fault ingest st)
                 = snd (Promise_all fault (saveOperations R (metricsByType mapMetric md)) st)"
        using \<open>data ingest = Some d\<close> Some
        by (simp add: saveMetrics_def split: prod.splits option.splits)
      then show ?thesis
        using \<open>data ingest = Some d\<close> Some
        by (simp add: Promise_all_store metrics_written_def)
    qed
  qed
qed

lemma saveMetrics_response:
  "fst (saveMetrics mapMetric R fault ingest st) = fst (saveMetrics mapMetric R fault ingest st')"
proof -
  have "fst (Promise_all fault bulks st) = fst (Promise_all fault bulks st')" for bulks
    by (simp add: Promise_all_error)
  then show ?thesis
    by (simp add: saveMetrics_def case_prod_beta Let_def split: option.splits)
qed

text \<open>
  C1. Writing the same request a second time changes nothing: the store after the second
  write is the store after the first (every collection has the same documents, in number
  and in field values), and the response is the same. Each metric is written by an upsert
  whose filter is its (source, date) within the collection of its kind, so the second
  write finds the document of the first and sets the same fields again.
\<close>

theorem saveMetrics_idempotent:
  "saveMetrics mapMetric R fault ingest (snd (saveMetrics mapMetric R fault ingest st))
   = saveMetrics mapMetric R fault ingest st"
proof (rule prod_eqI)
  show "fst (saveMetrics mapMetric R fault ingest (snd (saveMetrics mapMetric R fault ingest st)))
        = fst (saveMetrics mapMetric R fault ingest st)"
    by (rule saveMetrics_response)
  show "snd (saveMetrics mapMetric R fault ingest (snd (saveMetrics mapMetric R fault ingest st)))
        = snd (saveMetrics mapMetric R fault ingest st)"
    by (rule ext) (simp add: saveMetrics_store fold_upsert_idem)
qed

lemma parseDate_epoch_number:
  "parseDate rt (DNum (Finite 1705300000000)) = Some 1705300000000"
  "parseDate rt (DNum (Finite 1705300060000)) = Some 1705300060000"
  by (simp_all add: parseDate_def isValidDate_def trunc_def)

theorem saveMetrics_idempotent_witness:
  "saveMetrics (mapMetric_generic (node 0)) sample_registry no_fault
     (request (Some [sample_metric ''step_count''
        [sample_record ''watch'' (DNum (Finite 1705300000000)) 10,
         sample_record ''watch'' (DNum (Finite 1705300060000)) 20,
         sample_record ''watch'' (DNum (Finite 1705300000000)) 12]]))
     (snd (saveMetrics (mapMetric_generic (node 0)) sample_registry no_fault
        (request (Some [sample_metric ''step_count''
           [sample_record ''watch'' (DNum (Finite 1705300000000)) 10,
            sample_record ''watch'' (DNum (Finite 1705300060000)) 20,
            sample_record ''watch'' (DNum (Finite 1705300000000)) 12]]))
        empty_store))
   = saveMetrics (mapMetric_generic (node 0)) sample_registry no_fault
       (request (Some [sample_metric ''step_count''
          [sample_record ''watch'' (DNum (Finite 1705300000000)) 10,
           sample_record ''watch'' (DNum (Finite 1705300060000)) 20,
           sample_record ''watch'' (DNum (Finite 1705300000000)) 12]]))
       empty_store
   \<and> field_of ''qty''
        (snd (saveMetrics (mapMetric_generic (node 0)) sample_registry no_fault
           (request (Some [sample_metric ''step_count''
              [sample_record ''watch'' (DNum (Finite 1705300000000)) 10,
               sample_record ''watch'' (DNum (Finite 1705300060000)) 20,
               sample_record ''watch'' (DNum (Finite 1705300000000)) 12]]))
           empty_store) ''step_count'')
      = [Some (VNum 12), Some (VNum 20)]"
proof -
  let ?req = "request (Some [sample_metric ''step_count''
        [sample_record ''watch'' (DNum (Finite 1705300000000)) 10,
         sample_record ''watch'' (DNum (Finite 1705300060000)) 20,
         sample_record ''watch'' (DNum (Finite 1705300000000)) 12]])"
  have "field_of ''qty''
          (snd (saveMetrics (mapMetric_generic (node 0)) sample_registry no_fault ?req empty_store)
             ''step_count'')
        = [Some (VNum 12), Some (VNum 20)]"
    by (simp add: saveMetrics_store metrics_written_def request_def written_def metricsByType_def
        sample_metric_def mapMetric_generic_def List.map_filter_def normalizeRecord_def
        parseDate_epoch_number sample_record_def sample_registry_def model_for_def no_fault_def
        upsertMetric_simps doc_key_def metric_doc_def empty_store_def field_of_def)
  then show ?thesis
    using saveMetrics_idempotent [of "mapMetric_generic (node 0)" sample_registry no_fault ?req empty_store]
    by simp
qed

section \<open>What an upsert does to the document it matches\<close>

lemma updateOne_append:
  "\<forall>x \<in> set pre. \<not> matches f x \<Longrightarrow> updateOne f u (pre @ rest) = pre @ updateOne f u rest"
  by (induction pre) simp_all

text \<open>
  C8, as the code has it. The update of a metric upsert is \<open>$set\<close> of the new record:
  on the first document with the record's (source, date) it sets every field of the new
  record to the new value and leaves every field the new record does not carry as it
  was, and it adds no document; when no document has that identity, the document
  inserted carries exactly the new record's fields.
\<close>

theorem upsert_sets_fields:
  "(matches (fst (upsert_op m)) d \<and> (\<forall>x \<in> set pre. \<not> matches (fst (upsert_op m)) x) \<longrightarrow>
      updateOne (fst (upsert_op m)) (snd (upsert_op m)) (pre @ d # post)
      = pre @ (d ++ metric_doc m) # post)
   \<and> (\<forall>k v. metric_doc m k = Some v \<longrightarrow> (d ++ metric_doc m) k = Some v)
   \<and> (\<forall>k. metric_doc m k = None \<longrightarrow> (d ++ metric_doc m) k = d k)
   \<and> ((\<forall>x \<in> set c. \<not> matches (fst (upsert_op m)) x) \<longrightarrow>
        updateOne (fst (upsert_op m)) (snd (upsert_op m)) c = c @ [metric_doc m])"
proof -
  have "updateOne (fst (upsert_op m)) (snd (upsert_op m)) (pre @ d # post)
        = pre @ (d ++ metric_doc m) # post"
    if "matches (fst (upsert_op m)) d" "\<forall>x \<in> set pre. \<not> matches (fst (upsert_op m)) x"
    using that by (simp add: updateOne_append) (simp add: upsert_op_def)
  moreover have "updateOne (fst (upsert_op m)) (snd (upsert_op m)) c = c @ [metric_doc m]"
    if "\<forall>x \<in> set c. \<not> matches (fst (upsert_op m)) x"
    using that updateOne_append [of c "fst (upsert_op m)" "snd (upsert_op m)" "[]"]
    by (simp add: inserted_doc)
  ultimately show ?thesis
    by (simp add: map_add_def)
qed

theorem upsert_sets_fields_witness:
  "matches (fst (upsert_op new_metric)) (metric_doc old_metric)
   \<and> updateOne (fst (upsert_op new_metric)) (snd (upsert_op new_metric)) [metric_doc old_metric]
     = [metric_doc old_metric ++ metric_doc new_metric]
   \<and> (metric_doc old_metric ++ metric_doc new_metric) ''qty'' = Some (VNum 12)
   \<and> (metric_doc old_metric ++ metric_doc new_metric) ''note'' = Some (VStr ''manual'')
   \<and> updateOne (fst (upsert_op new_metric)) (snd (upsert_op new_metric)) [] = [metric_doc new_metric]"
proof -
  have m: "matches (fst (upsert_op new_metric)) (metric_doc old_metric)"
    by (simp add: matches_def upsert_op_def metric_doc_def old_metric_def new_metric_def)
  have q: "metric_doc new_metric ''qty'' = Some (VNum 12)" "metric_doc new_metric ''note'' = None"
    "metric_doc old_metric ''note'' = Some (VStr ''manual'')"
    by (simp_all add: metric_doc_def new_metric_def old_metric_def)
  show ?thesis
    using upsert_sets_fields [of new_metric "metric_doc old_metric" "[]" "[]" "[]"] m q
    by simp
qed

text \<open>
  A stored document with a field \<open>note\<close>, upserted with a record of the same source and
  date that has no such field, still has its \<open>note\<close> afterwards, next to the new
  \<open>qty\<close>: the stored document is not the new record alone.
\<close>

theorem upsert_full_replace_counterexample:
  "field_of ''note''
     (snd (saveMetrics metric_data sample_registry no_fault
             (request (Some [sample_metric ''step_count'' [new_metric]]))
             (empty_store(''step_count'' := [metric_doc old_metric])))
        ''step_count'')
   = [Some (VStr ''manual'')]
   \<and> field_of ''qty''
       (snd (saveMetrics metric_data sample_registry no_fault
               (request (Some [sample_metric ''step_count'' [new_metric]]))
               (empty_store(''step_count'' := [metric_doc old_metric])))
          ''step_count'')
     = [Some (VNum 12)]
   \<and> metric_doc new_metric ''note'' = None"
  by (simp add: saveMetrics_store metrics_written_def request_def written_def metricsByType_def
      sample_metric_def sample_registry_def model_for_def no_fault_def upsertMetric_simps
      doc_key_def metric_doc_def empty_store_def field_of_def old_metric_def new_metric_def)

section \<open>A bulk write that fails\<close>




end
